theory Spec2Isabelle
  imports Complex_Main
begin

section \<open>Problem details: values, options and the problem record\<close>

text \<open>
  The package \<open>problem\<close> keeps a \<open>map[string]any\<close> and an optional cause:
  \<^verbatim>\<open>
  type Problem struct {
      data  map[string]any
      cause error
  }
  \<close>
  A Go map reference is either \<open>nil\<close> or a map, so the field \<open>data\<close> is an optional
  partial function from keys to values; a \<open>*Problem\<close> is either \<open>nil\<close> or points to a
  struct, so it is a \<open>Problem option\<close>. Methods that change the struct return the new
  struct.
\<close>

subsection \<open>Go values held in an \<open>any\<close>\<close>

text \<open>
  The values an \<open>any\<close> holds are taken from a closed universe: \<open>nil\<close>, \<open>bool\<close>,
  \<open>int\<close> (what \<open>Status\<close> stores), \<open>float64\<close> (what the JSON decoder produces for a
  number), \<open>string\<close>, \<open>[]any\<close>, \<open>map[string]any\<close>, and one constructor for the values
  that \<open>json.Marshal\<close> rejects (a channel, a function, a complex number, a NaN).
  No arithmetic is done on the \<open>int\<close>, so it is an unbounded integer here. A
  \<open>float64\<close> is represented by the rational number it denotes. Strings are taken to be
  valid UTF-8 text.
\<close>

datatype any =
    ANil
  | ABool bool
  | AInt int
  | AFloat64 rat
  | AString string
  | ASlice "any list"
  | AMap "string \<Rightarrow> any option"
  | AUnsupported

text \<open>
  An \<open>error\<close> value of the caller: the text its \<open>Error()\<close> method returns and what
  its \<open>Unwrap()\<close> method returns (\<open>None\<close> when it has none or returns \<open>nil\<close>).
  A \<open>nil\<close> error is \<open>None :: error option\<close>. Errors are compared by structure.
\<close>

datatype error = GoError string "error option"

fun Error_text :: "error \<Rightarrow> string" where
  "Error_text (GoError msg next) = msg"

record Problem =
  data :: "(string \<rightharpoonup> any) option"
  cause :: "error option"

text \<open>The run-time panics the package can raise.\<close>

datatype panic = NilDereference | AssignToNilMap

subsection \<open>Options\<close>

text \<open>
  \<open>Option\<close> is an interface with the unexported method \<open>apply\<close>, implemented only by
  \<open>optionFunc\<close>; the closures the package builds are the constructors below.
  \<open>Custom\<close> returns \<open>Ext\<close>. An element of \<open>opts ...Option\<close> may be \<open>nil\<close>, so a list
  of options is an \<open>Option option list\<close>.
\<close>

datatype Option =
    Type string
  | Title string
  | Status int
  | Detail string
  | Instance string
  | Ext string any
  | Wrap "error option"
  | WrapPublic "error option"

definition Custom :: "string \<Rightarrow> any \<Rightarrow> Option" where
  "Custom key v = Ext key v"

definition ensureMap :: "Problem \<Rightarrow> Problem" where
  "ensureMap p = (if data p = None then p\<lparr>data := Some Map.empty\<rparr> else p)"

text \<open>The statement \<open>p.data[key] = v\<close>: assignment to an entry of a nil map panics.\<close>

definition assign :: "Problem \<Rightarrow> string \<Rightarrow> any \<Rightarrow> panic + Problem" where
  "assign p key v =
     (case data p of
        None \<Rightarrow> Inl AssignToNilMap
      | Some m \<Rightarrow> Inr (p\<lparr>data := Some (m(key \<mapsto> v))\<rparr>))"

fun apply_option :: "Option \<Rightarrow> Problem \<Rightarrow> panic + Problem" where
  "apply_option (Wrap err) p = Inr (p\<lparr>cause := err\<rparr>)"
| "apply_option (WrapPublic err) p =
     (let p1 = ensureMap (p\<lparr>cause := err\<rparr>) in
      case err of
        None \<Rightarrow> Inl NilDereference
      | Some e \<Rightarrow> assign p1 ''cause'' (AString (Error_text e)))"
| "apply_option (Type uri) p = assign (ensureMap p) ''type'' (AString uri)"
| "apply_option (Title title) p = assign (ensureMap p) ''title'' (AString title)"
| "apply_option (Status status) p = assign (ensureMap p) ''status'' (AInt status)"
| "apply_option (Detail detail) p = assign (ensureMap p) ''detail'' (AString detail)"
| "apply_option (Instance uri) p = assign (ensureMap p) ''instance'' (AString uri)"
| "apply_option (Ext key v) p = assign (ensureMap p) key v"

text \<open>
  The loop of \<open>New\<close> and \<open>Append\<close>:
  \<^verbatim>\<open>for _, opt := range opts { if opt != nil { opt.apply(p) } }\<close>
  A panic ends it.
\<close>

fun apply_all :: "Problem \<Rightarrow> Option option list \<Rightarrow> panic + Problem" where
  "apply_all p [] = Inr p"
| "apply_all p (None # opts) = apply_all p opts"
| "apply_all p (Some opt # opts) =
     (case apply_option opt p of
        Inl e \<Rightarrow> Inl e
      | Inr p' \<Rightarrow> apply_all p' opts)"

definition New :: "Option option list \<Rightarrow> panic + Problem" where
  "New opts = apply_all \<lparr>data = Some Map.empty, cause = None\<rparr> opts"

fun Append :: "Problem option \<Rightarrow> Option option list \<Rightarrow> panic + Problem" where
  "Append None opts = New opts"
| "Append (Some p) opts =
     apply_all (if data p = None then p\<lparr>data := Some Map.empty\<rparr> else p) opts"

definition With :: "Problem option \<Rightarrow> string \<Rightarrow> any \<Rightarrow> panic + Problem" where
  "With p key v = Append p [Some (Ext key v)]"

subsection \<open>Reading\<close>

fun Data :: "Problem option \<Rightarrow> (string \<rightharpoonup> any) option" where
  "Data None = Some Map.empty"
| "Data (Some p) =
     (case data p of
        None \<Rightarrow> Some Map.empty
      | Some m \<Rightarrow> Some (Map.empty ++ m))"

text \<open>\<open>Get\<close> returns the pair \<open>(v, ok)\<close>; the \<open>nil\<close> of type \<open>any\<close> is \<open>ANil\<close>.\<close>

fun Get :: "Problem option \<Rightarrow> string \<Rightarrow> any \<times> bool" where
  "Get None key = (ANil, False)"
| "Get (Some p) key =
     (case data p of
        None \<Rightarrow> (ANil, False)
      | Some m \<Rightarrow> (case m key of None \<Rightarrow> (ANil, False) | Some v \<Rightarrow> (v, True)))"

fun Unwrap :: "Problem option \<Rightarrow> error option" where
  "Unwrap None = None"
| "Unwrap (Some p) = cause p"

subsection \<open>Matching a target\<close>




section \<open>The JSON codec\<close>

text \<open>
  \<open>encoding/json\<close> is a collaborator of the package, not part of it. It is modelled
  at the level of JSON values, following its documentation: a byte sequence is either
  the text of a JSON value or not a JSON text at all. An object is the mapping the
  decoder sees (the last of several equal keys wins; key order is not kept), a number
  is the rational number its literal denotes.
\<close>

datatype json =
    JNull
  | JBool bool
  | JNumber rat
  | JString string
  | JArray "json list"
  | JObject "string \<Rightarrow> json option"

text \<open>
  \<open>Text j\<close> is the byte sequence \<open>json.Marshal\<close> writes for the JSON value \<open>j\<close>:
  \<open>Text JNull\<close> is \<open>[]byte("null")\<close> and \<open>Text (JObject Map.empty)\<close> is
  \<open>[]byte("{}")\<close>. \<open>Malformed s\<close> is a byte sequence \<open>s\<close> for which \<open>json.Valid\<close> is
  false; \<open>Malformed []\<close> is the empty sequence.
\<close>

datatype bytes = Text json | Malformed string

datatype marshal_error = UnsupportedValueError | InvalidOutput | MarshalerError marshal_error


definition all_some :: "('k \<Rightarrow> 'v option option) \<Rightarrow> ('k \<Rightarrow> 'v option) option" where
  "all_some m = (if \<forall>k. m k \<noteq> Some None then Some (\<lambda>k. Option.bind (m k) id) else None)"

text \<open>
  The JSON value \<open>json.Marshal\<close> writes for a Go value, \<open>None\<close> when it returns an
  error: an \<open>int\<close> and a \<open>float64\<close> both become a number.
\<close>

primrec to_json :: "any \<Rightarrow> json option" where
  "to_json ANil = Some JNull"
| "to_json (ABool b) = Some (JBool b)"
| "to_json (AInt n) = Some (JNumber (of_int n))"
| "to_json (AFloat64 r) = Some (JNumber r)"
| "to_json (AString s) = Some (JString s)"
| "to_json (ASlice xs) = map_option JArray (those (map to_json xs))"
| "to_json (AMap m) = map_option JObject (all_some (map_option to_json \<circ> m))"
| "to_json AUnsupported = None"


definition json_Marshal :: "any \<Rightarrow> marshal_error + bytes" where
  "json_Marshal v =
     (case to_json v of
        None \<Rightarrow> Inl UnsupportedValueError
      | Some j \<Rightarrow> Inr (Text j))"


section \<open>Serialization\<close>

fun MarshalJSON :: "Problem option \<Rightarrow> marshal_error + bytes" where
  "MarshalJSON None = Inr (Text JNull)"
| "MarshalJSON (Some p) =
     (case data p of
        None \<Rightarrow> Inr (Text (JObject Map.empty))
      | Some m \<Rightarrow> json_Marshal (AMap m))"

text \<open>
  \<open>json.Marshal(p)\<close> for \<open>p\<close> of type \<open>*Problem\<close>, which implements
  \<open>json.Marshaler\<close>: a nil pointer is written as \<open>null\<close>; otherwise \<open>MarshalJSON\<close> is
  called, its error is wrapped, and its output must be valid JSON.
\<close>

fun json_Marshal_Problem :: "Problem option \<Rightarrow> marshal_error + bytes" where
  "json_Marshal_Problem None = Inr (Text JNull)"
| "json_Marshal_Problem (Some p) =
     (case MarshalJSON (Some p) of
        Inl e \<Rightarrow> Inl (MarshalerError e)
      | Inr (Text j) \<Rightarrow> Inr (Text j)
      | Inr (Malformed s) \<Rightarrow> Inl (MarshalerError InvalidOutput))"

text \<open>\<open>b, _ := json.Marshal(p)\<close>: on an error \<open>b\<close> is \<open>nil\<close>, the empty sequence.\<close>

definition JSON :: "Problem option \<Rightarrow> bytes" where
  "JSON p = (case json_Marshal_Problem p of Inl e \<Rightarrow> Malformed [] | Inr b \<Rightarrow> b)"

definition JSONString :: "Problem option \<Rightarrow> bytes" where
  "JSONString p = JSON p"

definition Error :: "Problem option \<Rightarrow> bytes" where
  "Error p = JSONString p"



section \<open>Writing an HTTP response\<close>











section \<open>The map returned by \<open>Data\<close>, with maps held by reference\<close>








section \<open>Notions used in the statements\<close>

text \<open>The key and the value a field-setting option writes; \<open>Wrap\<close> and \<open>WrapPublic\<close> are not field-setting options.\<close>

fun field_write :: "Option \<Rightarrow> (string \<times> any) option" where
  "field_write (Type uri) = Some (''type'', AString uri)"
| "field_write (Title title) = Some (''title'', AString title)"
| "field_write (Status status) = Some (''status'', AInt status)"
| "field_write (Detail detail) = Some (''detail'', AString detail)"
| "field_write (Instance uri) = Some (''instance'', AString uri)"
| "field_write (Ext key v) = Some (key, v)"
| "field_write (Wrap err) = None"
| "field_write (WrapPublic err) = None"

fun field_setting :: "Option option \<Rightarrow> bool" where
  "field_setting None = True"
| "field_setting (Some opt) = (field_write opt \<noteq> None)"

text \<open>The value given by the last option of the sequence that targets the key, if there is one.\<close>

fun last_write :: "Option option list \<Rightarrow> string \<Rightarrow> any option" where
  "last_write [] key = None"
| "last_write (None # opts) key = last_write opts key"
| "last_write (Some opt # opts) key =
     (case last_write opts key of
        Some v \<Rightarrow> Some v
      | None \<Rightarrow> (case field_write opt of
                  None \<Rightarrow> None
                | Some (k, v) \<Rightarrow> if k = key then Some v else None))"



section \<open>Auxiliary facts\<close>


lemma apply_option_field:
  assumes "field_write opt = Some (k, v)"
  shows "apply_option opt p =
           Inr (p\<lparr>data := Some ((case data p of None \<Rightarrow> Map.empty | Some m \<Rightarrow> m)(k \<mapsto> v))\<rparr>)"
  using assms by (cases opt) (auto simp: assign_def ensureMap_def split: option.splits)

text \<open>
  The loop over field-setting options never panics, keeps the cause, and leaves under
  each key the last value written to it, or what was there before.
\<close>

lemma apply_all_fields:
  assumes "list_all field_setting opts"
  shows "\<exists>p'. apply_all p opts = Inr p' \<and> cause p' = cause p \<and>
           (\<forall>key. Get (Some p') key =
              (case last_write opts key of Some v \<Rightarrow> (v, True) | None \<Rightarrow> Get (Some p) key)) \<and>
           (data p \<noteq> None \<longrightarrow> data p' \<noteq> None)"
  using assms
proof (induction opts arbitrary: p)
  case Nil
  then show ?case by simp
next
  case (Cons o1 opts)
  show ?case
  proof (cases o1)
    case None
    with Cons show ?thesis by simp
  next
    case (Some opt)
    with Cons.prems obtain k v where kv: "field_write opt = Some (k, v)" by auto
    let ?q = "p\<lparr>data := Some ((case data p of None \<Rightarrow> Map.empty | Some m \<Rightarrow> m)(k \<mapsto> v))\<rparr>"
    from Cons.prems have "list_all field_setting opts" by simp
    from Cons.IH[OF this, of ?q] obtain p' where
      p': "apply_all ?q opts = Inr p'" "cause p' = cause ?q"
          "\<forall>key. Get (Some p') key =
              (case last_write opts key of Some v \<Rightarrow> (v, True) | None \<Rightarrow> Get (Some ?q) key)"
          "data p' \<noteq> None"
      by auto
    have "apply_all p (o1 # opts) = Inr p'"
      using Some kv p'(1) by (simp add: apply_option_field)
    moreover have "Get (Some p') key =
        (case last_write (o1 # opts) key of Some v \<Rightarrow> (v, True) | None \<Rightarrow> Get (Some p) key)" for key
      using p'(3) Some kv by (auto split: option.splits)
    ultimately show ?thesis using p'(2,4) by simp
  qed
qed









section \<open>Option application: the last write wins\<close>

text \<open>
  C1. For a sequence of field-setting options (nil entries are skipped), \<open>New\<close> and
  \<open>Append\<close> on any instance return without a panic, and for every key the value
  stored afterwards is the one given by the last option of the sequence that targets
  the key; a key no option targets keeps what it had (nothing, after \<open>New\<close>).
\<close>

theorem last_write_wins:
  assumes "list_all field_setting opts"
  shows "(\<exists>p'. New opts = Inr p' \<and>
            (\<forall>key. Get (Some p') key =
               (case last_write opts key of Some v \<Rightarrow> (v, True) | None \<Rightarrow> (ANil, False)))) \<and>
         (\<exists>p'. Append p opts = Inr p' \<and>
            (\<forall>key. Get (Some p') key =
               (case last_write opts key of Some v \<Rightarrow> (v, True) | None \<Rightarrow> Get p key)))"
proof (intro conjI)
  let ?e = "\<lparr>data = Some Map.empty, cause = None\<rparr>"
  have e: "Get (Some ?e) key = (ANil, False)" for key by simp
  from apply_all_fields[OF assms, of ?e]
  show new: "\<exists>p'. New opts = Inr p' \<and>
            (\<forall>key. Get (Some p') key =
               (case last_write opts key of Some v \<Rightarrow> (v, True) | None \<Rightarrow> (ANil, False)))"
    unfolding New_def e by blast
  show "\<exists>p'. Append p opts = Inr p' \<and>
            (\<forall>key. Get (Some p') key =
               (case last_write opts key of Some v \<Rightarrow> (v, True) | None \<Rightarrow> Get p key))"
  proof (cases p)
    case None
    show ?thesis using new unfolding None by (simp cong: option.case_cong)
  next
    case (Some q)
    let ?q = "if data q = None then q\<lparr>data := Some Map.empty\<rparr> else q"
    have g: "Get (Some ?q) key = Get (Some q) key" for key by (auto split: option.splits)
    from apply_all_fields[OF assms, of ?q] show ?thesis
      unfolding g Some Append.simps by blast
  qed
qed

text \<open>\<open>New(Title("a"), nil, Title("b"))\<close> has the title \<open>b\<close> and no detail.\<close>

theorem last_write_wins_witness:
  "list_all field_setting [Some (Title ''a''), None, Some (Title ''b'')] \<and>
   (\<exists>p'. New [Some (Title ''a''), None, Some (Title ''b'')] = Inr p' \<and>
          Get (Some p') ''title'' = (AString ''b'', True) \<and>
          Get (Some p') ''detail'' = (ANil, False))"
proof -
  have h: "list_all field_setting [Some (Title ''a''), None, Some (Title ''b'')]" by simp
  from last_write_wins [OF h, of None] h show ?thesis by auto
qed

section \<open>JSON round trip\<close>




section \<open>Writing the response\<close>





section \<open>Causes\<close>

text \<open>
  C4. On an instance (absent or not) that has no \<open>cause\<close> field, appending
  \<open>Wrap(err)\<close> makes \<open>Unwrap()\<close> return \<open>err\<close> and leaves \<open>Get("cause")\<close> absent;
  appending \<open>WrapPublic(err)\<close> for an error \<open>err\<close> makes \<open>Unwrap()\<close> return \<open>err\<close>
  and \<open>Get("cause")\<close> return the string \<open>err.Error()\<close>, present.
\<close>

theorem wrap_and_wrap_public:
  assumes "Get p ''cause'' = (ANil, False)"
  shows "(\<exists>p'. Append p [Some (Wrap err)] = Inr p' \<and>
               Unwrap (Some p') = err \<and> Get (Some p') ''cause'' = (ANil, False)) \<and>
         (\<exists>p'. Append p [Some (WrapPublic (Some e))] = Inr p' \<and>
               Unwrap (Some p') = Some e \<and>
               Get (Some p') ''cause'' = (AString (Error_text e), True))"
  using assms
  by (cases p) (auto simp: New_def assign_def ensureMap_def split: option.splits)

theorem wrap_and_wrap_public_witness:
  "Get (Some \<lparr>data = Some [''title'' \<mapsto> AString ''x''], cause = None\<rparr>) ''cause'' = (ANil, False) \<and>
   Append (Some \<lparr>data = Some [''title'' \<mapsto> AString ''x''], cause = None\<rparr>)
          [Some (Wrap (Some (GoError ''boom'' None)))] =
     Inr \<lparr>data = Some [''title'' \<mapsto> AString ''x''], cause = Some (GoError ''boom'' None)\<rparr> \<and>
   Append (Some \<lparr>data = Some [''title'' \<mapsto> AString ''x''], cause = None\<rparr>)
          [Some (WrapPublic (Some (GoError ''boom'' None)))] =
     Inr \<lparr>data = Some [''title'' \<mapsto> AString ''x'', ''cause'' \<mapsto> AString ''boom''],
          cause = Some (GoError ''boom'' None)\<rparr>"
proof -
  have h: "Get (Some \<lparr>data = Some [''title'' \<mapsto> AString ''x''], cause = None\<rparr>) ''cause'' = (ANil, False)"
    by simp
  from wrap_and_wrap_public [OF h, of "Some (GoError ''boom'' None)" "GoError ''boom'' None"]
  show ?thesis by (simp add: assign_def ensureMap_def)
qed

text \<open>
  C10. Applying \<open>WrapPublic(err)\<close> returns normally exactly when \<open>err\<close> is not
  \<open>nil\<close>; for \<open>nil\<close> it panics at \<open>err.Error()\<close>. Applying \<open>Wrap(err)\<close> always
  returns normally.
\<close>

theorem wrap_public_nil_panics:
  "((\<exists>p'. apply_option (WrapPublic err) q = Inr p') = (err \<noteq> None)) \<and>
   apply_option (WrapPublic None) q = Inl NilDereference \<and>
   New [Some (WrapPublic None)] = Inl NilDereference \<and>
   (\<exists>p'. apply_option (Wrap err) q = Inr p')"
  by (auto simp: New_def assign_def ensureMap_def split: option.splits)

theorem wrap_public_nil_panics_witness:
  "apply_option (WrapPublic None) \<lparr>data = Some Map.empty, cause = None\<rparr> = Inl NilDereference \<and>
   apply_option (Wrap None) \<lparr>data = Some Map.empty, cause = None\<rparr> \<noteq> Inl NilDereference"
  using wrap_public_nil_panics [of None "\<lparr>data = Some Map.empty, cause = None\<rparr>"]
  by auto



section \<open>Absent instances\<close>

text \<open>
  C5. On an absent instance, and on an instance whose field mapping is absent, the
  reading methods return their defaults: \<open>Get\<close> reports every key absent, \<open>Data\<close>
  returns an empty mapping (a mapping, not \<open>nil\<close>), \<open>MarshalJSON\<close> returns \<open>null\<close>
  for the absent instance and \<open>{}\<close> for the absent mapping, without an error, and
  \<open>JSON\<close>, \<open>JSONString\<close> and \<open>Error\<close> return the same text; \<open>Unwrap\<close> returns
  \<open>nil\<close>. None of these has a panic among its results.
\<close>

theorem reads_on_absent_instance:
  "Get None key = (ANil, False) \<and>
   Get (Some (q\<lparr>data := None\<rparr>)) key = (ANil, False) \<and>
   Data None = Some Map.empty \<and>
   Data (Some (q\<lparr>data := None\<rparr>)) = Some Map.empty \<and>
   MarshalJSON None = Inr (Text JNull) \<and>
   MarshalJSON (Some (q\<lparr>data := None\<rparr>)) = Inr (Text (JObject Map.empty)) \<and>
   JSON None = Text JNull \<and>
   JSON (Some (q\<lparr>data := None\<rparr>)) = Text (JObject Map.empty) \<and>
   JSONString None = Text JNull \<and>
   JSONString (Some (q\<lparr>data := None\<rparr>)) = Text (JObject Map.empty) \<and>
   Error None = Text JNull \<and>
   Error (Some (q\<lparr>data := None\<rparr>)) = Text (JObject Map.empty) \<and>
   Unwrap None = None"
  by (simp add: JSON_def Error_def JSONString_def)

theorem reads_on_absent_instance_witness:
  "Get (Some \<lparr>data = None, cause = None\<rparr>) ''status'' = (ANil, False) \<and>
   Data (Some \<lparr>data = None, cause = None\<rparr>) = Some Map.empty \<and>
   Error (Some \<lparr>data = None, cause = None\<rparr>) = Text (JObject Map.empty) \<and>
   Error None = Text JNull"
  using reads_on_absent_instance [of "''status''" "\<lparr>data = None, cause = None\<rparr>"]
  by simp

section \<open>Deserialization\<close>




section \<open>The copy returned by \<open>Data\<close>\<close>



end
